theory Spec2Isabelle
  imports Complex_Main "HOL-Library.Sublist"
begin

section \<open>Python string operations used by the converter\<close>

text \<open>
  \<^verbatim>\<open>s.endswith(suf)\<close>: \<open>suf\<close> is a suffix of \<open>s\<close>.
\<close>

definition endswith :: "string \<Rightarrow> string \<Rightarrow> bool" where
  "endswith s suf = suffix suf s"

text \<open>
  \<^verbatim>\<open>s.replace(old, new)\<close> with no count: every non-overlapping occurrence of
  \<open>old\<close>, found scanning from the left, is replaced by \<open>new\<close>. \<open>replace_scan\<close> is
  the scan for a non-empty \<open>old\<close>; with an empty \<open>old\<close> Python inserts \<open>new\<close>
  before every character and at the end.
\<close>

function replace_scan :: "string \<Rightarrow> string \<Rightarrow> string \<Rightarrow> string" where
  "replace_scan old new [] = []"
| "replace_scan old new (c # cs) =
     (if old \<noteq> [] \<and> prefix old (c # cs)
      then new @ replace_scan old new (drop (length old - 1) cs)
      else c # replace_scan old new cs)"
  by pat_completeness auto
termination
  by (relation "measure (\<lambda>(old, new, s). length s)") auto

definition str_replace :: "string \<Rightarrow> string \<Rightarrow> string \<Rightarrow> string" where
  "str_replace s old new =
     (if old = [] then new @ concat (map (\<lambda>c. c # new) s)
      else replace_scan old new s)"

text \<open>Line 58: the path the boundary mesh is written to.\<close>

definition facet_path :: "string \<Rightarrow> string" where
  "facet_path outp = str_replace outp ''.xdmf'' ''_facet.xdmf''"

section \<open>Meshes\<close>

text \<open>
  The source mesh is the object \<^verbatim>\<open>meshio.read\<close> returns, the output mesh the object
  \<^verbatim>\<open>meshio.Mesh(points=..., cells={...}, cell_data={...})\<close> builds. Coordinates are
  floating-point numbers; the converter never computes with them, it only selects
  columns, so they are modelled as reals. An element is the list of its node indices, a
  physical-group tag is an integer.
\<close>

type_synonym point = "real list"
type_synonym connectivity = "nat list list"
type_synonym tags = "int list"

record source_mesh =
  points :: "point list"
  cell_blocks :: "string \<rightharpoonup> connectivity"
  cell_data :: "string \<rightharpoonup> (string \<rightharpoonup> tags)"

text \<open>
  The two dict literals of line 20 are kept as association lists, one pair per entry of
  the literal.
\<close>

record output_mesh =
  out_points :: "point list"
  out_cells :: "(string \<times> connectivity) list"
  out_cell_data :: "(string \<times> tags list) list"

text \<open>
  The exceptions of a run: the three \<^verbatim>\<open>raise Exception(...)\<close> of \<open>main\<close>, the exit of
  the argument parser, and the failures of the mesh library.
\<close>

datatype error =
    Exception string
  | ArgumentError string
  | LookupFailure string
  | ReadFailure string
  | WriteFailure string

text \<open>
  Modelled from the spec: \<^verbatim>\<open>Mesh.get_cells_type\<close> and \<^verbatim>\<open>Mesh.get_cell_data\<close> belong to
  the mesh library, which is not part of the repository. Each retrieves the sequence
  stored for the cell kind and fails with a lookup failure when the source mesh has no
  block of that kind, or no data under the given name.
\<close>

definition get_cells_type :: "source_mesh \<Rightarrow> string \<Rightarrow> error + connectivity" where
  "get_cells_type mesh cell_type =
     (case cell_blocks mesh cell_type of
        None \<Rightarrow> Inl (LookupFailure cell_type)
      | Some cells \<Rightarrow> Inr cells)"

definition get_cell_data :: "source_mesh \<Rightarrow> string \<Rightarrow> string \<Rightarrow> error + tags" where
  "get_cell_data mesh name cell_type =
     (case cell_data mesh name of
        None \<Rightarrow> Inl (LookupFailure name)
      | Some by_kind \<Rightarrow>
          (case by_kind cell_type of
             None \<Rightarrow> Inl (LookupFailure cell_type)
           | Some ts \<Rightarrow> Inr ts))"

text \<open>The slice \<^verbatim>\<open>mesh.points[:,:2]\<close>: of every row, the columns 0 and 1 that exist.\<close>

definition first_two_columns :: "point list \<Rightarrow> point list" where
  "first_two_columns pts = map (take 2) pts"

text \<open>
  Lines 15 to 21. The locals \<^verbatim>\<open>cell_data\<close> and \<^verbatim>\<open>points\<close> are \<open>physical\<close> and \<open>pts\<close>
  here, the names of the fields being taken.
\<close>

definition create_mesh :: "source_mesh \<Rightarrow> string \<Rightarrow> bool \<Rightarrow> error + output_mesh" where
  "create_mesh mesh cell_type prune_z =
     (case get_cells_type mesh cell_type of
        Inl e \<Rightarrow> Inl e
      | Inr cells \<Rightarrow>
          (case get_cell_data mesh ''gmsh:physical'' cell_type of
             Inl e \<Rightarrow> Inl e
           | Inr physical \<Rightarrow>
               (let pts = (if prune_z then first_two_columns (points mesh) else points mesh)
                in Inr \<lparr>out_points = pts,
                        out_cells = [(cell_type, cells)],
                        out_cell_data = [(''name_to_read'', [physical])]\<rparr>)))"

text \<open>
  The invariant of a source mesh (the mesh library keeps it for every mesh it loads):
  the tags stored for a cell kind are aligned with the elements of that kind, one tag
  per element.
\<close>

definition aligned :: "source_mesh \<Rightarrow> bool" where
  "aligned mesh =
     (\<forall>kind cells ts by_kind.
        cell_blocks mesh kind = Some cells \<and> cell_data mesh ''gmsh:physical'' = Some by_kind \<and>
        by_kind kind = Some ts \<longrightarrow> length cells = length ts)"

section \<open>Arguments\<close>

text \<open>
  What the command line gives for each option (\<open>None\<close>: the option is absent), and the
  namespace \<^verbatim>\<open>parse_args\<close> returns. The parser (lines 25 to 34) requires the two
  paths, fills in the defaults 2 and 1, and exits when a value is outside its
  \<^verbatim>\<open>choices\<close>. The two numbers are taken as already converted by \<^verbatim>\<open>type=int\<close>.
\<close>

record raw_args =
  raw_mesh_full_path :: "string option"
  raw_output_full_path :: "string option"
  raw_mesh_dim :: "int option"
  raw_deg :: "int option"

record args =
  mesh_full_path :: string
  output_full_path :: string
  mesh_dim :: int
  deg :: int

definition parse_args :: "raw_args \<Rightarrow> error + args" where
  "parse_args raw =
     (let dim = (case raw_mesh_dim raw of None \<Rightarrow> 2 | Some d \<Rightarrow> d);
          dg = (case raw_deg raw of None \<Rightarrow> 1 | Some d \<Rightarrow> d)
      in if dim \<notin> {2, 3} then Inl (ArgumentError ''--mesh_dim'')
         else if dg \<notin> {1, 2} then Inl (ArgumentError ''--deg'')
         else (case raw_mesh_full_path raw of
                 None \<Rightarrow> Inl (ArgumentError ''--mesh_full_path'')
               | Some inp \<Rightarrow>
                   (case raw_output_full_path raw of
                      None \<Rightarrow> Inl (ArgumentError ''--output_full_path'')
                    | Some outp \<Rightarrow>
                        Inr \<lparr>mesh_full_path = inp, output_full_path = outp,
                             mesh_dim = dim, deg = dg\<rparr>)))"

text \<open>Line 46.\<close>

definition prune_z_of :: "args \<Rightarrow> bool" where
  "prune_z_of a = (if mesh_dim a = 2 then True else False)"

section \<open>The run\<close>

text \<open>
  The world a run acts on: what \<^verbatim>\<open>meshio.read\<close> finds at a path (\<open>None\<close>: the read
  fails), the paths \<^verbatim>\<open>meshio.write\<close> can write to, the files written so far, the
  lines printed so far, and the calls made so far, in order.
\<close>

datatype event =
    Read string
  | CreateMesh string bool
  | Write string
  | Print string

record world =
  disk :: "string \<rightharpoonup> source_mesh"
  writable :: "string \<Rightarrow> bool"
  written :: "(string \<times> output_mesh) list"
  stdout :: "string list"
  trace :: "event list"

type_synonym 'a io = "world \<Rightarrow> (error + 'a) \<times> world"

definition return_io :: "'a \<Rightarrow> 'a io" where
  "return_io x w = (Inr x, w)"

definition raise_io :: "error \<Rightarrow> 'a io" where
  "raise_io e w = (Inl e, w)"

text \<open>Sequencing: an exception of the first statement ends the run there.\<close>

definition bind_io :: "'a io \<Rightarrow> ('a \<Rightarrow> 'b io) \<Rightarrow> 'b io" where
  "bind_io m f w = (case m w of (Inl e, w') \<Rightarrow> (Inl e, w') | (Inr x, w') \<Rightarrow> f x w')"

text \<open>
  \<^verbatim>\<open>meshio.read\<close>, \<^verbatim>\<open>meshio.write\<close> and \<^verbatim>\<open>print\<close> are not code of the repository: what a
  read finds and whether a write succeeds are given by the world (\<open>disk\<close>, \<open>writable\<close>).
  Every call is logged when it is made, whatever its outcome; a file counts as written
  when the write has succeeded.
\<close>

definition log_event :: "event \<Rightarrow> world \<Rightarrow> world" where
  "log_event ev w = w\<lparr>trace := trace w @ [ev]\<rparr>"

definition meshio_read :: "string \<Rightarrow> source_mesh io" where
  "meshio_read path w =
     (case disk w path of
        None \<Rightarrow> (Inl (ReadFailure path), log_event (Read path) w)
      | Some mesh \<Rightarrow> (Inr mesh, log_event (Read path) w))"

definition meshio_write :: "string \<Rightarrow> output_mesh \<Rightarrow> unit io" where
  "meshio_write path mesh w =
     (if writable w path
      then (Inr (), (log_event (Write path) w)\<lparr>written := written w @ [(path, mesh)]\<rparr>)
      else (Inl (WriteFailure path), log_event (Write path) w))"

definition call_create_mesh :: "source_mesh \<Rightarrow> string \<Rightarrow> bool \<Rightarrow> output_mesh io" where
  "call_create_mesh mesh cell_type prune_z w =
     (create_mesh mesh cell_type prune_z, log_event (CreateMesh cell_type prune_z) w)"

definition print_line :: "string \<Rightarrow> unit io" where
  "print_line s w = (Inr (), (log_event (Print s) w)\<lparr>stdout := stdout w @ [s]\<rparr>)"

text \<open>The messages of the three \<^verbatim>\<open>raise\<close> statements and of the final \<^verbatim>\<open>print\<close>.\<close>

definition input_extension_message :: string where
  "input_extension_message = ''The input file must have the extension .msh''"

definition output_extension_message :: string where
  "output_extension_message = ''The output file must have the extension .xdmf''"

definition not_implemented_message :: string where
  "not_implemented_message =
     ''Not implemented yet. Type 'msh.cell_data_dict' to know the options.''"

definition done_message :: string where
  "done_message = ''Mesh conversion is done.''"

text \<open>Lines 48 to 55: the two meshes, as the pair \<open>(line_mesh, triangle_mesh)\<close>.\<close>

definition extract_by_deg :: "args \<Rightarrow> source_mesh \<Rightarrow> bool \<Rightarrow> (output_mesh \<times> output_mesh) io" where
  "extract_by_deg a msh prune_z =
     (if deg a = 1 then
        bind_io (call_create_mesh msh ''line'' prune_z) (\<lambda>line_mesh.
        bind_io (call_create_mesh msh ''triangle'' prune_z) (\<lambda>triangle_mesh.
        return_io (line_mesh, triangle_mesh)))
      else if deg a = 2 then
        bind_io (call_create_mesh msh ''line3'' prune_z) (\<lambda>line_mesh.
        bind_io (call_create_mesh msh ''triangle6'' prune_z) (\<lambda>triangle_mesh.
        return_io (line_mesh, triangle_mesh)))
      else raise_io (Exception not_implemented_message))"

text \<open>Lines 36 to 60: the body of \<open>main\<close> after the arguments are parsed.\<close>

definition main_body :: "args \<Rightarrow> unit io" where
  "main_body a =
     (if \<not> endswith (mesh_full_path a) ''.msh'' then
        raise_io (Exception input_extension_message)
      else if \<not> endswith (output_full_path a) ''.xdmf'' then
        raise_io (Exception output_extension_message)
      else
        bind_io (meshio_read (mesh_full_path a)) (\<lambda>msh.
        bind_io (extract_by_deg a msh (prune_z_of a)) (\<lambda>(line_mesh, triangle_mesh).
        bind_io (meshio_write (output_full_path a) triangle_mesh) (\<lambda>_.
        bind_io (meshio_write (facet_path (output_full_path a)) line_mesh) (\<lambda>_.
        print_line done_message)))))"

definition main :: "raw_args \<Rightarrow> unit io" where
  "main raw = (case parse_args raw of Inl e \<Rightarrow> raise_io e | Inr a \<Rightarrow> main_body a)"

text \<open>
  The table of the specification: the boundary kind and the volume kind of a degree.
\<close>

definition spec_kind_table :: "int \<Rightarrow> (string \<times> string) option" where
  "spec_kind_table d =
     (if d = 1 then Some (''line'', ''triangle'')
      else if d = 2 then Some (''line3'', ''triangle6'')
      else None)"

text \<open>What a run from \<open>w\<close> to \<open>w'\<close> added: its calls, in order, and the files it wrote.\<close>

definition events_of_run :: "world \<Rightarrow> world \<Rightarrow> event list" where
  "events_of_run w w' = drop (length (trace w)) (trace w')"

definition files_of_run :: "world \<Rightarrow> world \<Rightarrow> (string \<times> output_mesh) list" where
  "files_of_run w w' = drop (length (written w)) (written w')"

text \<open>The cell kinds passed to \<open>create_mesh\<close>, in the order of the calls.\<close>

fun extracted_kinds :: "event list \<Rightarrow> string list" where
  "extracted_kinds [] = []"
| "extracted_kinds (CreateMesh kind prune_z # evs) = kind # extracted_kinds evs"
| "extracted_kinds (_ # evs) = extracted_kinds evs"

fun is_write :: "event \<Rightarrow> bool" where
  "is_write (Write path) = True"
| "is_write _ = False"

fun is_create_mesh :: "event \<Rightarrow> bool" where
  "is_create_mesh (CreateMesh kind prune_z) = True"
| "is_create_mesh _ = False"

section \<open>The source mesh as an object in a store\<close>

text \<open>
  For the effect of \<open>create_mesh\<close> on its argument the meshes are objects in a store
  and \<open>create_mesh\<close> receives a reference. A mesh object refers to its coordinate
  array, so that the output mesh built without pruning shares the array of the source
  (line 19 passes \<^verbatim>\<open>mesh.points\<close> on, and the slice \<^verbatim>\<open>mesh.points[:,:2]\<close> is a new
  array object). The store is the list of the objects allocated so far, an address is an
  index into it, and allocation appends.
\<close>

type_synonym addr = nat

datatype obj =
    NdArray "point list"
  | SourceObj addr "string \<rightharpoonup> connectivity" "string \<rightharpoonup> (string \<rightharpoonup> tags)"
  | OutputObj addr "(string \<times> connectivity) list" "(string \<times> tags list) list"

type_synonym store = "obj list"

definition deref :: "store \<Rightarrow> addr \<Rightarrow> obj option" where
  "deref h a = (if a < length h then Some (h ! a) else None)"

definition alloc :: "store \<Rightarrow> obj \<Rightarrow> addr \<times> store" where
  "alloc h ob = (length h, h @ [ob])"

text \<open>The source mesh, respectively the output mesh, that an address denotes.\<close>

definition source_at :: "store \<Rightarrow> addr \<Rightarrow> source_mesh option" where
  "source_at h a =
     (case deref h a of
        Some (SourceObj pref blocks cdata) \<Rightarrow>
          (case deref h pref of
             Some (NdArray pts) \<Rightarrow>
               Some \<lparr>points = pts, cell_blocks = blocks, cell_data = cdata\<rparr>
           | _ \<Rightarrow> None)
      | _ \<Rightarrow> None)"

definition output_at :: "store \<Rightarrow> addr \<Rightarrow> output_mesh option" where
  "output_at h a =
     (case deref h a of
        Some (OutputObj pref cells cdata) \<Rightarrow>
          (case deref h pref of
             Some (NdArray pts) \<Rightarrow>
               Some \<lparr>out_points = pts, out_cells = cells, out_cell_data = cdata\<rparr>
           | _ \<Rightarrow> None)
      | _ \<Rightarrow> None)"

definition points_ref :: "store \<Rightarrow> addr \<Rightarrow> addr" where
  "points_ref h a = (case deref h a of Some (SourceObj pref blocks cdata) \<Rightarrow> pref | _ \<Rightarrow> a)"

text \<open>
  Lines 15 to 21 on the store. An address that denotes no source mesh cannot be passed
  in Python; the model answers it with an error and an unchanged store.
\<close>

definition create_mesh_in_store ::
  "store \<Rightarrow> addr \<Rightarrow> string \<Rightarrow> bool \<Rightarrow> (error + addr) \<times> store" where
  "create_mesh_in_store h mesh cell_type prune_z =
     (case source_at h mesh of
        None \<Rightarrow> (Inl (Exception ''not a mesh''), h)
      | Some m \<Rightarrow>
          (case get_cells_type m cell_type of
             Inl e \<Rightarrow> (Inl e, h)
           | Inr cells \<Rightarrow>
               (case get_cell_data m ''gmsh:physical'' cell_type of
                  Inl e \<Rightarrow> (Inl e, h)
                | Inr physical \<Rightarrow>
                    (let (pref, h1) =
                           (if prune_z then alloc h (NdArray (first_two_columns (points m)))
                            else (points_ref h mesh, h));
                         (out_mesh, h2) =
                           alloc h1 (OutputObj pref [(cell_type, cells)]
                                       [(''name_to_read'', [physical])])
                     in (Inr out_mesh, h2)))))"

section \<open>A sample run\<close>

text \<open>
  A mesh of three points with one triangle and two boundary lines, stored with a
  placeholder z-coordinate, and the world in which it is the file \<open>mesh.msh\<close>.
\<close>

definition sample_mesh :: source_mesh where
  "sample_mesh =
     \<lparr>points = [[0, 0, 0], [1, 0, 0], [0, 1, 0]],
      cell_blocks = [''line'' \<mapsto> [[0, 1], [1, 2]], ''triangle'' \<mapsto> [[0, 1, 2]]],
      cell_data = [''gmsh:physical'' \<mapsto> [''line'' \<mapsto> [2, 3], ''triangle'' \<mapsto> [1]]]\<rparr>"

definition sample_world :: world where
  "sample_world =
     \<lparr>disk = [''mesh.msh'' \<mapsto> sample_mesh], writable = (\<lambda>path. True),
      written = [], stdout = [], trace = []\<rparr>"

definition sample_raw :: raw_args where
  "sample_raw =
     \<lparr>raw_mesh_full_path = Some ''mesh.msh'', raw_output_full_path = Some ''out.xdmf'',
      raw_mesh_dim = None, raw_deg = None\<rparr>"

definition sample_store :: store where
  "sample_store =
     [NdArray [[0, 0, 0], [1, 0, 0], [0, 1, 0]],
      SourceObj 0 [''line'' \<mapsto> [[0, 1], [1, 2]], ''triangle'' \<mapsto> [[0, 1, 2]]]
        [''gmsh:physical'' \<mapsto> [''line'' \<mapsto> [2, 3], ''triangle'' \<mapsto> [1]]]]"

definition sample_args :: args where
  "sample_args =
     \<lparr>mesh_full_path = ''mesh.msh'', output_full_path = ''out.xdmf'', mesh_dim = 2, deg = 1\<rparr>"

text \<open>The same command line with \<open>--deg 2\<close>, and a mesh of one quadratic triangle.\<close>

definition sample_raw_quadratic :: raw_args where
  "sample_raw_quadratic = sample_raw\<lparr>raw_deg := Some 2\<rparr>"

definition sample_args_quadratic :: args where
  "sample_args_quadratic = sample_args\<lparr>deg := 2\<rparr>"

definition sample_mesh_quadratic :: source_mesh where
  "sample_mesh_quadratic =
     \<lparr>points = [[0, 0, 0], [1, 0, 0], [0, 1, 0], [1 / 2, 0, 0], [1 / 2, 1 / 2, 0], [0, 1 / 2, 0]],
      cell_blocks = [''line3'' \<mapsto> [[0, 1, 3], [1, 2, 4]], ''triangle6'' \<mapsto> [[0, 1, 2, 3, 4, 5]]],
      cell_data = [''gmsh:physical'' \<mapsto> [''line3'' \<mapsto> [2, 3], ''triangle6'' \<mapsto> [1]]]\<rparr>"

definition sample_world_quadratic :: world where
  "sample_world_quadratic = sample_world\<lparr>disk := [''mesh.msh'' \<mapsto> sample_mesh_quadratic]\<rparr>"

text \<open>
  Variations of the sample: a mesh file without cell blocks, an input path with another
  extension, an output path with another extension.
\<close>

definition sample_world_no_cells :: world where
  "sample_world_no_cells =
     sample_world\<lparr>disk := [''mesh.msh'' \<mapsto> sample_mesh\<lparr>cell_blocks := Map.empty\<rparr>]\<rparr>"

definition sample_raw_wrong_input :: raw_args where
  "sample_raw_wrong_input = sample_raw\<lparr>raw_mesh_full_path := Some ''mesh.xyz''\<rparr>"

definition sample_raw_wrong_output :: raw_args where
  "sample_raw_wrong_output = sample_raw\<lparr>raw_output_full_path := Some ''out.vtk''\<rparr>"

section \<open>Properties of the string operations\<close>

lemma replace_scan_length_ge:
  "length old \<le> length new \<Longrightarrow> length s \<le> length (replace_scan old new s)"
proof (induction old new s rule: replace_scan.induct)
  case (1 old new)
  then show ?case by simp
next
  case (2 old new c cs)
  show ?case
  proof (cases "old \<noteq> [] \<and> prefix old (c # cs)")
    case True
    then have len: "length old \<le> Suc (length cs)" and pos: "0 < length old"
      using prefix_length_le [of old "c # cs"] by simp_all
    have "length (drop (length old - 1) cs) \<le> length (replace_scan old new (drop (length old - 1) cs))"
      using 2 True by simp
    then have "length cs - (length old - 1) \<le> length (replace_scan old new (drop (length old - 1) cs))"
      by simp
    then have "Suc (length cs) \<le> length new + length (replace_scan old new (drop (length old - 1) cs))"
      using len pos 2(3) by linarith
    then show ?thesis using True by simp
  next
    case False
    then show ?thesis using 2 by auto
  qed
qed

lemma replace_scan_length_gt:
  "length old < length new \<Longrightarrow> old \<noteq> [] \<Longrightarrow> sublist old s \<Longrightarrow>
   length s < length (replace_scan old new s)"
proof (induction old new s rule: replace_scan.induct)
  case (1 old new)
  then show ?case by simp
next
  case (2 old new c cs)
  show ?case
  proof (cases "prefix old (c # cs)")
    case True
    then have len: "length old \<le> Suc (length cs)" and pos: "0 < length old"
      using prefix_length_le [of old "c # cs"] 2(4) by simp_all
    have "length (drop (length old - 1) cs) \<le> length (replace_scan old new (drop (length old - 1) cs))"
      by (rule replace_scan_length_ge) (use 2(3) in simp)
    then have "length cs - (length old - 1) \<le> length (replace_scan old new (drop (length old - 1) cs))"
      by simp
    then have "Suc (length cs) < length new + length (replace_scan old new (drop (length old - 1) cs))"
      using len pos 2(3) by linarith
    then show ?thesis using True 2(4) by simp
  next
    case False
    then have "sublist old cs"
      using 2(5) by (simp add: sublist_Cons_right)
    then have "length cs < length (replace_scan old new cs)"
      using 2 False by simp
    then show ?thesis using False by simp
  qed
qed

lemma facet_path_longer:
  "endswith outp ''.xdmf'' \<Longrightarrow> length outp < length (facet_path outp)"
proof -
  assume "endswith outp ''.xdmf''"
  then have "sublist ''.xdmf'' outp"
    by (simp add: endswith_def)
  then have "length outp < length (replace_scan ''.xdmf'' ''_facet.xdmf'' outp)"
    by (intro replace_scan_length_gt) simp_all
  then show ?thesis
    by (simp add: facet_path_def str_replace_def)
qed

text \<open>
  Where \<open>old\<close> occurs in \<open>stem @ old\<close> at the end only, the scan replaces just that
  occurrence; so for an output path that contains \<open>.xdmf\<close> once, the boundary path is
  the path with its suffix replaced.
\<close>

lemma replace_scan_single:
  "old \<noteq> [] \<Longrightarrow> \<not> sublist old (stem @ butlast old) \<Longrightarrow>
   replace_scan old new (stem @ old) = stem @ new"
proof (induction stem)
  case Nil
  then obtain c cs where "old = c # cs"
    by (cases old) auto
  then show ?case by simp
next
  case (Cons c cs)
  define ys where "ys = (c # cs) @ butlast old"
  have split: "(c # cs) @ old = ys @ [last old]"
    using Cons.prems(1) by (simp add: ys_def)
  have len: "length old \<le> length ys"
    by (simp add: ys_def)
  have "\<not> prefix old ((c # cs) @ old)"
  proof
    assume "prefix old ((c # cs) @ old)"
    then have "prefix old ys \<or> old = ys @ [last old]"
      unfolding split by (auto simp: prefix_snoc)
    moreover have "old \<noteq> ys @ [last old]"
    proof
      assume "old = ys @ [last old]"
      then have "length old = Suc (length ys)"
        by (metis length_append_singleton)
      with len show False by simp
    qed
    ultimately have "prefix old ys"
      by simp
    then have "sublist old ys"
      by (rule prefix_imp_sublist)
    then show False
      using Cons.prems(2) by (simp add: ys_def)
  qed
  moreover have "\<not> sublist old (cs @ butlast old)"
    using Cons.prems(2) by (auto simp: sublist_Cons_right)
  ultimately show ?case
    using Cons by simp
qed

lemma facet_path_single_occurrence:
  "\<not> sublist ''.xdmf'' (stem @ ''.xdm'') \<Longrightarrow>
   facet_path (stem @ ''.xdmf'') = stem @ ''_facet.xdmf''"
  using replace_scan_single [of "''.xdmf''" stem "''_facet.xdmf''"]
  by (simp add: facet_path_def str_replace_def)

text \<open>
  C1. The claim: the boundary path is the output path with only its final \<open>.xdmf\<close>
  replaced by \<open>_facet.xdmf\<close>, also when \<open>.xdmf\<close> occurs earlier in the path. Line 58
  calls \<^verbatim>\<open>replace\<close>, which rewrites every occurrence: for the output path
  \<open>a.xdmf/b.xdmf\<close>, which passes the check of line 39, the boundary mesh goes to
  \<open>a_facet.xdmf/b_facet.xdmf\<close> and not to \<open>a.xdmf/b_facet.xdmf\<close>.
\<close>

theorem facet_path_rewrites_every_occurrence:
  "endswith ''a.xdmf/b.xdmf'' ''.xdmf'' \<and>
   facet_path ''a.xdmf/b.xdmf'' = ''a_facet.xdmf/b_facet.xdmf'' \<and>
   facet_path ''a.xdmf/b.xdmf'' \<noteq> ''a.xdmf/b'' @ ''_facet.xdmf''"
  by (simp add: endswith_def facet_path_def str_replace_def suffix_to_prefix)

text \<open>
  C10. For every output path that ends with \<open>.xdmf\<close>, the boundary path differs from
  the output path: the two writes of lines 57 and 58 never name the same file.
\<close>

theorem facet_path_differs:
  "endswith outp ''.xdmf'' \<Longrightarrow> facet_path outp \<noteq> outp"
  using facet_path_longer [of outp] by auto

theorem facet_path_differs_witness:
  "endswith ''out.xdmf'' ''.xdmf'' \<and> facet_path ''out.xdmf'' \<noteq> ''out.xdmf''"
proof -
  have h: "endswith ''out.xdmf'' ''.xdmf''"
    by (simp add: endswith_def suffix_to_prefix)
  show ?thesis using h facet_path_differs [OF h] by simp
qed

section \<open>The run in closed form\<close>

lemma extract_by_deg_unfold:
  "extract_by_deg a msh p w =
   (case spec_kind_table (deg a) of
      None \<Rightarrow> (Inl (Exception not_implemented_message), w)
    | Some (bk, vk) \<Rightarrow>
        (case create_mesh msh bk p of
           Inl e \<Rightarrow> (Inl e, w\<lparr>trace := trace w @ [CreateMesh bk p]\<rparr>)
         | Inr lm \<Rightarrow>
             (case create_mesh msh vk p of
                Inl e \<Rightarrow> (Inl e, w\<lparr>trace := trace w @ [CreateMesh bk p, CreateMesh vk p]\<rparr>)
              | Inr tm \<Rightarrow> (Inr (lm, tm), w\<lparr>trace := trace w @ [CreateMesh bk p, CreateMesh vk p]\<rparr>))))"
  by (auto simp: extract_by_deg_def spec_kind_table_def bind_io_def return_io_def raise_io_def
        call_create_mesh_def log_event_def split: sum.splits)

lemma main_body_unfold:
  "main_body a w =
   (let inp = mesh_full_path a; outp = output_full_path a; p = prune_z_of a in
    if \<not> endswith inp ''.msh'' then (Inl (Exception input_extension_message), w)
    else if \<not> endswith outp ''.xdmf'' then (Inl (Exception output_extension_message), w)
    else
      (case disk w inp of
         None \<Rightarrow> (Inl (ReadFailure inp), w\<lparr>trace := trace w @ [Read inp]\<rparr>)
       | Some msh \<Rightarrow>
           (case spec_kind_table (deg a) of
              None \<Rightarrow> (Inl (Exception not_implemented_message), w\<lparr>trace := trace w @ [Read inp]\<rparr>)
            | Some (bk, vk) \<Rightarrow>
                (case create_mesh msh bk p of
                   Inl e \<Rightarrow> (Inl e, w\<lparr>trace := trace w @ [Read inp, CreateMesh bk p]\<rparr>)
                 | Inr lm \<Rightarrow>
                     (case create_mesh msh vk p of
                        Inl e \<Rightarrow>
                          (Inl e, w\<lparr>trace := trace w @ [Read inp, CreateMesh bk p, CreateMesh vk p]\<rparr>)
                      | Inr tm \<Rightarrow>
                          if \<not> writable w outp then
                            (Inl (WriteFailure outp),
                             w\<lparr>trace := trace w @ [Read inp, CreateMesh bk p, CreateMesh vk p, Write outp]\<rparr>)
                          else if \<not> writable w (facet_path outp) then
                            (Inl (WriteFailure (facet_path outp)),
                             w\<lparr>trace := trace w @ [Read inp, CreateMesh bk p, CreateMesh vk p, Write outp,
                                                     Write (facet_path outp)],
                               written := written w @ [(outp, tm)]\<rparr>)
                          else
                            (Inr (),
                             w\<lparr>trace := trace w @ [Read inp, CreateMesh bk p, CreateMesh vk p, Write outp,
                                                     Write (facet_path outp), Print done_message],
                               written := written w @ [(outp, tm), (facet_path outp, lm)],
                               stdout := stdout w @ [done_message]\<rparr>))))))"
  unfolding main_body_def Let_def
  by (simp add: extract_by_deg_unfold bind_io_def raise_io_def meshio_read_def meshio_write_def
        print_line_def log_event_def split: option.splits sum.splits prod.splits)

lemma main_parsed: "parse_args raw = Inr a \<Longrightarrow> main raw w = main_body a w"
  by (simp add: main_def)

lemma parse_args_choices:
  "parse_args raw = Inr a \<Longrightarrow> mesh_dim a \<in> {2, 3} \<and> deg a \<in> {1, 2}"
  by (auto simp: parse_args_def Let_def split: if_splits option.splits)


section \<open>The sample runs, evaluated\<close>

lemma sample_parse: "parse_args sample_raw = Inr sample_args"
  by (simp add: parse_args_def sample_raw_def sample_args_def)

lemma sample_parse_quadratic: "parse_args sample_raw_quadratic = Inr sample_args_quadratic"
  by (simp add: parse_args_def sample_raw_quadratic_def sample_raw_def sample_args_quadratic_def
        sample_args_def)

lemma sample_paths:
  "endswith ''mesh.msh'' ''.msh''" "endswith ''out.xdmf'' ''.xdmf''"
  "facet_path ''out.xdmf'' = ''out_facet.xdmf''"
  by (simp_all add: endswith_def suffix_to_prefix facet_path_def str_replace_def)

lemma sample_line:
  "create_mesh sample_mesh ''line'' True =
     Inr \<lparr>out_points = [[0, 0], [1, 0], [0, 1]], out_cells = [(''line'', [[0, 1], [1, 2]])],
          out_cell_data = [(''name_to_read'', [[2, 3]])]\<rparr>"
  by (simp add: create_mesh_def get_cells_type_def get_cell_data_def first_two_columns_def
        sample_mesh_def)

lemma sample_triangle:
  "create_mesh sample_mesh ''triangle'' True =
     Inr \<lparr>out_points = [[0, 0], [1, 0], [0, 1]], out_cells = [(''triangle'', [[0, 1, 2]])],
          out_cell_data = [(''name_to_read'', [[1]])]\<rparr>"
  by (simp add: create_mesh_def get_cells_type_def get_cell_data_def first_two_columns_def
        sample_mesh_def)

lemma sample_line3: "create_mesh sample_mesh ''line3'' True = Inl (LookupFailure ''line3'')"
  by (simp add: create_mesh_def get_cells_type_def sample_mesh_def)

lemma sample_quadratic_line3:
  "create_mesh sample_mesh_quadratic ''line3'' True =
     Inr \<lparr>out_points = [[0, 0], [1, 0], [0, 1], [1 / 2, 0], [1 / 2, 1 / 2], [0, 1 / 2]],
          out_cells = [(''line3'', [[0, 1, 3], [1, 2, 4]])],
          out_cell_data = [(''name_to_read'', [[2, 3]])]\<rparr>"
  by (simp add: create_mesh_def get_cells_type_def get_cell_data_def first_two_columns_def
        sample_mesh_quadratic_def)

lemma sample_quadratic_triangle6:
  "create_mesh sample_mesh_quadratic ''triangle6'' True =
     Inr \<lparr>out_points = [[0, 0], [1, 0], [0, 1], [1 / 2, 0], [1 / 2, 1 / 2], [0, 1 / 2]],
          out_cells = [(''triangle6'', [[0, 1, 2, 3, 4, 5]])],
          out_cell_data = [(''name_to_read'', [[1]])]\<rparr>"
  by (simp add: create_mesh_def get_cells_type_def get_cell_data_def first_two_columns_def
        sample_mesh_quadratic_def)

lemma sample_run:
  "main sample_raw sample_world =
     (Inr (),
      sample_world
        \<lparr>trace := [Read ''mesh.msh'', CreateMesh ''line'' True, CreateMesh ''triangle'' True,
                   Write ''out.xdmf'', Write ''out_facet.xdmf'', Print done_message],
          written :=
            [(''out.xdmf'',
              \<lparr>out_points = [[0, 0], [1, 0], [0, 1]], out_cells = [(''triangle'', [[0, 1, 2]])],
                 out_cell_data = [(''name_to_read'', [[1]])]\<rparr>),
             (''out_facet.xdmf'',
              \<lparr>out_points = [[0, 0], [1, 0], [0, 1]], out_cells = [(''line'', [[0, 1], [1, 2]])],
                 out_cell_data = [(''name_to_read'', [[2, 3]])]\<rparr>)],
          stdout := [done_message]\<rparr>)"
proof -
  have "main sample_raw sample_world = main_body sample_args sample_world"
    by (simp add: main_parsed sample_parse)
  also have "\<dots> = (Inr (),
      sample_world
        \<lparr>trace := [Read ''mesh.msh'', CreateMesh ''line'' True, CreateMesh ''triangle'' True,
                   Write ''out.xdmf'', Write ''out_facet.xdmf'', Print done_message],
          written :=
            [(''out.xdmf'',
              \<lparr>out_points = [[0, 0], [1, 0], [0, 1]], out_cells = [(''triangle'', [[0, 1, 2]])],
                 out_cell_data = [(''name_to_read'', [[1]])]\<rparr>),
             (''out_facet.xdmf'',
              \<lparr>out_points = [[0, 0], [1, 0], [0, 1]], out_cells = [(''line'', [[0, 1], [1, 2]])],
                 out_cell_data = [(''name_to_read'', [[2, 3]])]\<rparr>)],
          stdout := [done_message]\<rparr>)"
    by (simp add: main_body_unfold Let_def sample_args_def sample_paths prune_z_of_def spec_kind_table_def
          sample_line sample_triangle sample_world_def)
  finally show ?thesis .
qed

lemma sample_run_quadratic_fails:
  "main sample_raw_quadratic sample_world =
     (Inl (LookupFailure ''line3''),
      sample_world\<lparr>trace := [Read ''mesh.msh'', CreateMesh ''line3'' True]\<rparr>)"
proof -
  have "main sample_raw_quadratic sample_world = main_body sample_args_quadratic sample_world"
    by (simp add: main_parsed sample_parse_quadratic)
  also have "\<dots> = (Inl (LookupFailure ''line3''),
      sample_world\<lparr>trace := [Read ''mesh.msh'', CreateMesh ''line3'' True]\<rparr>)"
    by (simp add: main_body_unfold Let_def sample_args_quadratic_def sample_args_def sample_paths
          prune_z_of_def spec_kind_table_def sample_line3 sample_world_def)
  finally show ?thesis .
qed

lemma sample_run_quadratic:
  "main sample_raw_quadratic sample_world_quadratic =
     (Inr (),
      sample_world_quadratic
        \<lparr>trace := [Read ''mesh.msh'', CreateMesh ''line3'' True, CreateMesh ''triangle6'' True,
                   Write ''out.xdmf'', Write ''out_facet.xdmf'', Print done_message],
          written :=
            [(''out.xdmf'',
              \<lparr>out_points = [[0, 0], [1, 0], [0, 1], [1 / 2, 0], [1 / 2, 1 / 2], [0, 1 / 2]],
                 out_cells = [(''triangle6'', [[0, 1, 2, 3, 4, 5]])],
                 out_cell_data = [(''name_to_read'', [[1]])]\<rparr>),
             (''out_facet.xdmf'',
              \<lparr>out_points = [[0, 0], [1, 0], [0, 1], [1 / 2, 0], [1 / 2, 1 / 2], [0, 1 / 2]],
                 out_cells = [(''line3'', [[0, 1, 3], [1, 2, 4]])],
                 out_cell_data = [(''name_to_read'', [[2, 3]])]\<rparr>)],
          stdout := [done_message]\<rparr>)"
proof -
  have "main sample_raw_quadratic sample_world_quadratic =
        main_body sample_args_quadratic sample_world_quadratic"
    by (simp add: main_parsed sample_parse_quadratic)
  also have "\<dots> = (Inr (),
      sample_world_quadratic
        \<lparr>trace := [Read ''mesh.msh'', CreateMesh ''line3'' True, CreateMesh ''triangle6'' True,
                   Write ''out.xdmf'', Write ''out_facet.xdmf'', Print done_message],
          written :=
            [(''out.xdmf'',
              \<lparr>out_points = [[0, 0], [1, 0], [0, 1], [1 / 2, 0], [1 / 2, 1 / 2], [0, 1 / 2]],
                 out_cells = [(''triangle6'', [[0, 1, 2, 3, 4, 5]])],
                 out_cell_data = [(''name_to_read'', [[1]])]\<rparr>),
             (''out_facet.xdmf'',
              \<lparr>out_points = [[0, 0], [1, 0], [0, 1], [1 / 2, 0], [1 / 2, 1 / 2], [0, 1 / 2]],
                 out_cells = [(''line3'', [[0, 1, 3], [1, 2, 4]])],
                 out_cell_data = [(''name_to_read'', [[2, 3]])]\<rparr>)],
          stdout := [done_message]\<rparr>)"
    by (simp add: main_body_unfold Let_def sample_args_quadratic_def sample_args_def sample_paths
          prune_z_of_def spec_kind_table_def sample_quadratic_line3 sample_quadratic_triangle6
          sample_world_quadratic_def sample_world_def)
  finally show ?thesis .
qed


lemma sample_run_result:
  "fst (main sample_raw sample_world) = Inr ()"
  "isl (fst (main sample_raw_quadratic sample_world))"
  "fst (main sample_raw_quadratic sample_world_quadratic) = Inr ()"
  unfolding sample_run sample_run_quadratic_fails sample_run_quadratic by simp_all

lemma sample_run_events:
  "events_of_run sample_world (snd (main sample_raw sample_world)) =
     [Read ''mesh.msh'', CreateMesh ''line'' True, CreateMesh ''triangle'' True,
      Write ''out.xdmf'', Write ''out_facet.xdmf'', Print done_message]"
  "events_of_run sample_world (snd (main sample_raw_quadratic sample_world)) =
     [Read ''mesh.msh'', CreateMesh ''line3'' True]"
  "events_of_run sample_world_quadratic (snd (main sample_raw_quadratic sample_world_quadratic)) =
     [Read ''mesh.msh'', CreateMesh ''line3'' True, CreateMesh ''triangle6'' True,
      Write ''out.xdmf'', Write ''out_facet.xdmf'', Print done_message]"
  unfolding sample_run sample_run_quadratic_fails sample_run_quadratic
  by (simp_all add: events_of_run_def sample_world_quadratic_def sample_world_def)

lemma sample_run_files:
  "files_of_run sample_world (snd (main sample_raw sample_world)) =
     [(''out.xdmf'',
       \<lparr>out_points = [[0, 0], [1, 0], [0, 1]], out_cells = [(''triangle'', [[0, 1, 2]])],
          out_cell_data = [(''name_to_read'', [[1]])]\<rparr>),
      (''out_facet.xdmf'',
       \<lparr>out_points = [[0, 0], [1, 0], [0, 1]], out_cells = [(''line'', [[0, 1], [1, 2]])],
          out_cell_data = [(''name_to_read'', [[2, 3]])]\<rparr>)]"
  "files_of_run sample_world (snd (main sample_raw_quadratic sample_world)) = []"
  unfolding sample_run sample_run_quadratic_fails
  by (simp_all add: files_of_run_def sample_world_def)

section \<open>Properties of the run\<close>

text \<open>
  C2. In a run with valid arguments both extractions are made before either file is
  written: if the run attempts a write at all, both calls of \<open>create_mesh\<close> have
  succeeded, they come before every write, and none comes after. If \<open>create_mesh\<close>
  fails for the boundary kind or for the volume kind, the run fails and writes no file.
  A run that succeeds writes exactly two files, under two different paths.
\<close>

theorem extractions_precede_writes:
  "parse_args raw = Inr a \<Longrightarrow> main raw w = (r, w') \<Longrightarrow>
   ((\<exists>path. Write path \<in> set (events_of_run w w')) \<longrightarrow>
      (\<exists>bk vk msh lm tm rest.
         spec_kind_table (deg a) = Some (bk, vk) \<and>
         disk w (mesh_full_path a) = Some msh \<and>
         create_mesh msh bk (prune_z_of a) = Inr lm \<and>
         create_mesh msh vk (prune_z_of a) = Inr tm \<and>
         events_of_run w w' =
           [Read (mesh_full_path a), CreateMesh bk (prune_z_of a), CreateMesh vk (prune_z_of a)] @ rest \<and>
         (\<forall>ev \<in> set rest. \<not> is_create_mesh ev))) \<and>
   (\<forall>msh bk vk.
      disk w (mesh_full_path a) = Some msh \<and> spec_kind_table (deg a) = Some (bk, vk) \<and>
      (isl (create_mesh msh bk (prune_z_of a)) \<or> isl (create_mesh msh vk (prune_z_of a))) \<longrightarrow>
      isl r \<and> files_of_run w w' = [] \<and> written w' = written w \<and>
      (\<forall>ev \<in> set (events_of_run w w'). \<not> is_write ev)) \<and>
   (r = Inr () \<longrightarrow>
      (\<exists>tm lm. files_of_run w w' =
         [(output_full_path a, tm), (facet_path (output_full_path a), lm)]) \<and>
      output_full_path a \<noteq> facet_path (output_full_path a))"
proof -
  assume parsed: "parse_args raw = Inr a" and run: "main raw w = (r, w')"
  have body: "main_body a w = (r, w')"
    using parsed run by (simp add: main_parsed)
  have order: "(\<exists>path. Write path \<in> set (events_of_run w w')) \<longrightarrow>
      (\<exists>bk vk msh lm tm rest.
         spec_kind_table (deg a) = Some (bk, vk) \<and>
         disk w (mesh_full_path a) = Some msh \<and>
         create_mesh msh bk (prune_z_of a) = Inr lm \<and>
         create_mesh msh vk (prune_z_of a) = Inr tm \<and>
         events_of_run w w' =
           [Read (mesh_full_path a), CreateMesh bk (prune_z_of a), CreateMesh vk (prune_z_of a)] @ rest \<and>
         (\<forall>ev \<in> set rest. \<not> is_create_mesh ev))"
    using body
    by (auto simp: main_body_unfold Let_def events_of_run_def
          split: if_splits option.splits sum.splits)
  have failing: "\<forall>msh bk vk.
      disk w (mesh_full_path a) = Some msh \<and> spec_kind_table (deg a) = Some (bk, vk) \<and>
      (isl (create_mesh msh bk (prune_z_of a)) \<or> isl (create_mesh msh vk (prune_z_of a))) \<longrightarrow>
      isl r \<and> files_of_run w w' = [] \<and> written w' = written w \<and>
      (\<forall>ev \<in> set (events_of_run w w'). \<not> is_write ev)"
    using body
    by (auto simp: main_body_unfold Let_def events_of_run_def files_of_run_def
          split: if_splits option.splits sum.splits)
  have two: "r = Inr () \<longrightarrow>
      (\<exists>tm lm. files_of_run w w' =
         [(output_full_path a, tm), (facet_path (output_full_path a), lm)]) \<and>
      output_full_path a \<noteq> facet_path (output_full_path a)"
  proof
    assume ok: "r = Inr ()"
    have ext: "endswith (output_full_path a) ''.xdmf''"
      using body ok
      by (auto simp: main_body_unfold Let_def split: if_splits option.splits sum.splits)
    have "\<exists>tm lm. files_of_run w w' =
         [(output_full_path a, tm), (facet_path (output_full_path a), lm)]"
      using body ok
      by (auto simp: main_body_unfold Let_def files_of_run_def
            split: if_splits option.splits sum.splits)
    moreover have "output_full_path a \<noteq> facet_path (output_full_path a)"
      using facet_path_longer [OF ext] by auto
    ultimately show "(\<exists>tm lm. files_of_run w w' =
         [(output_full_path a, tm), (facet_path (output_full_path a), lm)]) \<and>
      output_full_path a \<noteq> facet_path (output_full_path a)"
      by simp
  qed
  from order failing two show ?thesis by blast
qed

theorem extractions_precede_writes_witness:
  "parse_args sample_raw = Inr sample_args \<and>
   fst (main sample_raw sample_world) = Inr () \<and>
   Write ''out.xdmf'' \<in> set (events_of_run sample_world (snd (main sample_raw sample_world))) \<and>
   events_of_run sample_world (snd (main sample_raw sample_world)) =
     [Read ''mesh.msh'', CreateMesh ''line'' True, CreateMesh ''triangle'' True] @
     [Write ''out.xdmf'', Write ''out_facet.xdmf'', Print done_message] \<and>
   length (files_of_run sample_world (snd (main sample_raw sample_world))) = 2 \<and>
   parse_args sample_raw_quadratic = Inr sample_args_quadratic \<and>
   disk sample_world (mesh_full_path sample_args_quadratic) = Some sample_mesh \<and>
   spec_kind_table (deg sample_args_quadratic) = Some (''line3'', ''triangle6'') \<and>
   isl (create_mesh sample_mesh ''line3'' (prune_z_of sample_args_quadratic)) \<and>
   isl (fst (main sample_raw_quadratic sample_world)) \<and>
   files_of_run sample_world (snd (main sample_raw_quadratic sample_world)) = []"
proof -
  have run: "main sample_raw sample_world =
      (fst (main sample_raw sample_world), snd (main sample_raw sample_world))"
    by simp
  have run2: "main sample_raw_quadratic sample_world =
      (fst (main sample_raw_quadratic sample_world), snd (main sample_raw_quadratic sample_world))"
    by simp
  note linear = extractions_precede_writes [OF sample_parse run]
  note quadratic = extractions_precede_writes [OF sample_parse_quadratic run2]
  have given: "disk sample_world (mesh_full_path sample_args_quadratic) = Some sample_mesh"
    "spec_kind_table (deg sample_args_quadratic) = Some (''line3'', ''triangle6'')"
    "isl (create_mesh sample_mesh ''line3'' (prune_z_of sample_args_quadratic))"
    by (simp_all add: sample_world_def sample_args_quadratic_def sample_args_def
          spec_kind_table_def prune_z_of_def sample_line3)
  have "isl (fst (main sample_raw_quadratic sample_world)) \<and>
        files_of_run sample_world (snd (main sample_raw_quadratic sample_world)) = []"
    using quadratic given by blast
  moreover have "length (files_of_run sample_world (snd (main sample_raw sample_world))) = 2"
    using linear sample_run_result(1) by auto
  ultimately show ?thesis
    using sample_parse sample_parse_quadratic given
    by (simp add: sample_run_result sample_run_events)
qed

text \<open>
  C3. The cell kinds passed to \<open>create_mesh\<close> in a run depend on the degree alone:
  with \<open>deg = 1\<close> they are \<open>line\<close> then \<open>triangle\<close>, with \<open>deg = 2\<close> they are \<open>line3\<close> then
  \<open>triangle6\<close> (a run that fails on the way has passed an initial part of these), any
  other degree passes none, and a run that succeeds has passed exactly the two.
\<close>

theorem kinds_determined_by_degree:
  "main_body a w = (r, w') \<Longrightarrow>
   (deg a = 1 \<longrightarrow> prefix (extracted_kinds (events_of_run w w')) [''line'', ''triangle'']) \<and>
   (deg a = 2 \<longrightarrow> prefix (extracted_kinds (events_of_run w w')) [''line3'', ''triangle6'']) \<and>
   (deg a \<noteq> 1 \<and> deg a \<noteq> 2 \<longrightarrow> extracted_kinds (events_of_run w w') = []) \<and>
   (r = Inr () \<longrightarrow>
      (deg a = 1 \<longrightarrow> extracted_kinds (events_of_run w w') = [''line'', ''triangle'']) \<and>
      (deg a = 2 \<longrightarrow> extracted_kinds (events_of_run w w') = [''line3'', ''triangle6'']))"
  by (auto simp: main_body_unfold Let_def events_of_run_def spec_kind_table_def
        split: if_splits option.splits sum.splits)

theorem kinds_determined_by_degree_witness:
  "deg sample_args = 1 \<and>
   fst (main_body sample_args sample_world) = Inr () \<and>
   extracted_kinds (events_of_run sample_world (snd (main_body sample_args sample_world))) =
     [''line'', ''triangle''] \<and>
   deg sample_args_quadratic = 2 \<and>
   fst (main_body sample_args_quadratic sample_world_quadratic) = Inr () \<and>
   extracted_kinds (events_of_run sample_world_quadratic
       (snd (main_body sample_args_quadratic sample_world_quadratic))) = [''line3'', ''triangle6'']"
proof -
  have run: "main_body sample_args sample_world =
      (fst (main_body sample_args sample_world), snd (main_body sample_args sample_world))"
    by simp
  have run2: "main_body sample_args_quadratic sample_world_quadratic =
      (fst (main_body sample_args_quadratic sample_world_quadratic),
       snd (main_body sample_args_quadratic sample_world_quadratic))"
    by simp
  have degs: "deg sample_args = 1" "deg sample_args_quadratic = 2"
    by (simp_all add: sample_args_quadratic_def sample_args_def)
  have ok: "fst (main_body sample_args sample_world) = Inr ()"
    "fst (main_body sample_args_quadratic sample_world_quadratic) = Inr ()"
    using sample_run_result
    by (simp_all add: main_parsed [OF sample_parse] main_parsed [OF sample_parse_quadratic])
  show ?thesis
    using kinds_determined_by_degree [OF run] kinds_determined_by_degree [OF run2] degs ok
    by simp
qed


section \<open>Properties of the extraction\<close>

lemma create_mesh_result:
  "create_mesh mesh kind prune_z = Inr out \<Longrightarrow>
   \<exists>cells ts.
     get_cells_type mesh kind = Inr cells \<and>
     get_cell_data mesh ''gmsh:physical'' kind = Inr ts \<and>
     out = \<lparr>out_points = (if prune_z then first_two_columns (points mesh) else points mesh),
            out_cells = [(kind, cells)],
            out_cell_data = [(''name_to_read'', [ts])]\<rparr>"
  by (auto simp: create_mesh_def Let_def split: sum.splits)

text \<open>
  C7. An output mesh built by \<open>create_mesh\<close> has one entry in its cells, the cell kind
  with the connectivity sequence the source mesh holds for that kind, and one entry in
  its cell data, the key \<open>name_to_read\<close> with the one-element list holding the tags the
  source mesh holds for that kind under \<open>gmsh:physical\<close>. The two sequences come from
  the source mesh unchanged, so for a source mesh that is aligned, as every mesh the
  library loads is, they have the same length.
\<close>

theorem create_mesh_shape:
  "create_mesh mesh kind prune_z = Inr out \<Longrightarrow> aligned mesh \<Longrightarrow>
   \<exists>cells ts by_kind.
     cell_blocks mesh kind = Some cells \<and>
     cell_data mesh ''gmsh:physical'' = Some by_kind \<and> by_kind kind = Some ts \<and>
     out_cells out = [(kind, cells)] \<and>
     out_cell_data out = [(''name_to_read'', [ts])] \<and>
     length (out_cells out) = 1 \<and> length (out_cell_data out) = 1 \<and>
     length cells = length ts"
proof -
  assume built: "create_mesh mesh kind prune_z = Inr out" and inv: "aligned mesh"
  from create_mesh_result [OF built] obtain cells ts where
    c: "get_cells_type mesh kind = Inr cells" and
    t: "get_cell_data mesh ''gmsh:physical'' kind = Inr ts" and
    o: "out_cells out = [(kind, cells)]" "out_cell_data out = [(''name_to_read'', [ts])]"
    by auto
  from c have blk: "cell_blocks mesh kind = Some cells"
    by (auto simp: get_cells_type_def split: option.splits)
  from t obtain by_kind where
    phys: "cell_data mesh ''gmsh:physical'' = Some by_kind" "by_kind kind = Some ts"
    by (auto simp: get_cell_data_def split: option.splits)
  with blk inv have "length cells = length ts"
    unfolding aligned_def by blast
  with blk phys o show ?thesis by simp
qed

lemma sample_aligned: "aligned sample_mesh"
  by (auto simp: aligned_def sample_mesh_def split: if_splits)

theorem create_mesh_shape_witness:
  "aligned sample_mesh \<and>
   create_mesh sample_mesh ''line'' True =
     Inr \<lparr>out_points = [[0, 0], [1, 0], [0, 1]], out_cells = [(''line'', [[0, 1], [1, 2]])],
          out_cell_data = [(''name_to_read'', [[2, 3]])]\<rparr> \<and>
   (\<exists>cells ts by_kind.
      cell_blocks sample_mesh ''line'' = Some cells \<and>
      cell_data sample_mesh ''gmsh:physical'' = Some by_kind \<and> by_kind ''line'' = Some ts \<and>
      [(''line'', [[0, 1], [1, 2]])] = [(''line'', cells)] \<and>
      [(''name_to_read'', [[2, 3]])] = [(''name_to_read'', [ts])] \<and>
      length cells = length ts)"
  using create_mesh_shape [OF sample_line sample_aligned] sample_line sample_aligned
  by simp

text \<open>
  C4. For arguments that passed the parser, the flag of line 46 is true exactly when the
  declared dimension is 2 and false exactly when it is 3; the coordinates play no part
  in it. With the flag true, every point of the output mesh has exactly two components,
  for a source mesh whose points have at least two (the points of a source mesh are 2D
  or 3D); with the flag false, the points of the output mesh are those of the source.
  A successful run writes exactly the two meshes that \<open>create_mesh\<close> builds with this
  flag from the mesh read, the volume mesh to the output path and the boundary mesh to
  the path derived from it; so with dimension 2 every point of both has two components,
  and with dimension 3 both have the points of the source.
\<close>

theorem pruning_policy:
  "(parse_args raw = Inr a \<longrightarrow>
      (prune_z_of a \<longleftrightarrow> mesh_dim a = 2) \<and> (\<not> prune_z_of a \<longleftrightarrow> mesh_dim a = 3)) \<and>
   (create_mesh mesh kind True = Inr pruned \<and> (\<forall>p \<in> set (points mesh). 2 \<le> length p) \<longrightarrow>
      (\<forall>p \<in> set (out_points pruned). length p = 2)) \<and>
   (create_mesh mesh kind False = Inr kept \<longrightarrow>
      out_points kept = points mesh \<and>
      map length (out_points kept) = map length (points mesh)) \<and>
   (parse_args raw = Inr a \<and> main raw w = (Inr (), w') \<longrightarrow>
      (\<exists>msh. disk w (mesh_full_path a) = Some msh \<and>
         (\<forall>(path, out) \<in> set (files_of_run w w').
            \<exists>k. create_mesh msh k (prune_z_of a) = Inr out))) \<and>
   (parse_args raw = Inr a \<and> main raw w = (Inr (), w') \<longrightarrow>
      (\<exists>msh bk vk lm tm.
         disk w (mesh_full_path a) = Some msh \<and>
         spec_kind_table (deg a) = Some (bk, vk) \<and>
         create_mesh msh bk (prune_z_of a) = Inr lm \<and>
         create_mesh msh vk (prune_z_of a) = Inr tm \<and>
         files_of_run w w' =
           [(output_full_path a, tm), (facet_path (output_full_path a), lm)] \<and>
         (mesh_dim a = 2 \<and> (\<forall>p \<in> set (points msh). 2 \<le> length p) \<longrightarrow>
            (\<forall>p \<in> set (out_points tm). length p = 2) \<and>
            (\<forall>p \<in> set (out_points lm). length p = 2)) \<and>
         (mesh_dim a = 3 \<longrightarrow>
            out_points tm = points msh \<and> out_points lm = points msh)))"
proof -
  have flag: "parse_args raw = Inr a \<longrightarrow>
      (prune_z_of a \<longleftrightarrow> mesh_dim a = 2) \<and> (\<not> prune_z_of a \<longleftrightarrow> mesh_dim a = 3)"
    using parse_args_choices [of raw a] by (auto simp: prune_z_of_def)
  have two: "create_mesh mesh kind True = Inr pruned \<and> (\<forall>p \<in> set (points mesh). 2 \<le> length p) \<longrightarrow>
      (\<forall>p \<in> set (out_points pruned). length p = 2)"
    by (auto dest!: create_mesh_result simp: first_two_columns_def)
  have same: "create_mesh mesh kind False = Inr kept \<longrightarrow>
      out_points kept = points mesh \<and>
      map length (out_points kept) = map length (points mesh)"
    by (auto dest!: create_mesh_result)
  have both: "parse_args raw = Inr a \<and> main raw w = (Inr (), w') \<longrightarrow>
      (\<exists>msh. disk w (mesh_full_path a) = Some msh \<and>
         (\<forall>(path, out) \<in> set (files_of_run w w').
            \<exists>k. create_mesh msh k (prune_z_of a) = Inr out))"
    by (auto simp: main_parsed main_body_unfold Let_def files_of_run_def
          split: if_splits option.splits sum.splits) blast+
  have files: "parse_args raw = Inr a \<and> main raw w = (Inr (), w') \<longrightarrow>
      (\<exists>msh bk vk lm tm.
         disk w (mesh_full_path a) = Some msh \<and>
         spec_kind_table (deg a) = Some (bk, vk) \<and>
         create_mesh msh bk (prune_z_of a) = Inr lm \<and>
         create_mesh msh vk (prune_z_of a) = Inr tm \<and>
         files_of_run w w' =
           [(output_full_path a, tm), (facet_path (output_full_path a), lm)] \<and>
         (mesh_dim a = 2 \<and> (\<forall>p \<in> set (points msh). 2 \<le> length p) \<longrightarrow>
            (\<forall>p \<in> set (out_points tm). length p = 2) \<and>
            (\<forall>p \<in> set (out_points lm). length p = 2)) \<and>
         (mesh_dim a = 3 \<longrightarrow>
            out_points tm = points msh \<and> out_points lm = points msh))"
  proof
    assume run: "parse_args raw = Inr a \<and> main raw w = (Inr (), w')"
    then have body: "main_body a w = (Inr (), w')"
      using main_parsed [of raw a w] by simp
    then obtain msh bk vk lm tm where
      d: "disk w (mesh_full_path a) = Some msh" and
      k: "spec_kind_table (deg a) = Some (bk, vk)" and
      l: "create_mesh msh bk (prune_z_of a) = Inr lm" and
      t: "create_mesh msh vk (prune_z_of a) = Inr tm" and
      f: "files_of_run w w' =
            [(output_full_path a, tm), (facet_path (output_full_path a), lm)]"
      by (auto simp: main_body_unfold Let_def files_of_run_def
            split: if_splits option.splits sum.splits)
    have lp: "out_points lm =
        (if prune_z_of a then first_two_columns (points msh) else points msh)"
      using create_mesh_result [OF l] by auto
    have tp: "out_points tm =
        (if prune_z_of a then first_two_columns (points msh) else points msh)"
      using create_mesh_result [OF t] by auto
    have pruned2: "mesh_dim a = 2 \<and> (\<forall>p \<in> set (points msh). 2 \<le> length p) \<longrightarrow>
        (\<forall>p \<in> set (out_points tm). length p = 2) \<and>
        (\<forall>p \<in> set (out_points lm). length p = 2)"
      using lp tp by (auto simp: prune_z_of_def first_two_columns_def)
    have kept3: "mesh_dim a = 3 \<longrightarrow>
        out_points tm = points msh \<and> out_points lm = points msh"
      using lp tp by (simp add: prune_z_of_def)
    from d k l t f pruned2 kept3 show "\<exists>msh bk vk lm tm.
         disk w (mesh_full_path a) = Some msh \<and>
         spec_kind_table (deg a) = Some (bk, vk) \<and>
         create_mesh msh bk (prune_z_of a) = Inr lm \<and>
         create_mesh msh vk (prune_z_of a) = Inr tm \<and>
         files_of_run w w' =
           [(output_full_path a, tm), (facet_path (output_full_path a), lm)] \<and>
         (mesh_dim a = 2 \<and> (\<forall>p \<in> set (points msh). 2 \<le> length p) \<longrightarrow>
            (\<forall>p \<in> set (out_points tm). length p = 2) \<and>
            (\<forall>p \<in> set (out_points lm). length p = 2)) \<and>
         (mesh_dim a = 3 \<longrightarrow>
            out_points tm = points msh \<and> out_points lm = points msh)"
      by blast
  qed
  from flag two same both files show ?thesis by blast
qed

theorem pruning_policy_witness:
  "parse_args sample_raw = Inr sample_args \<and> mesh_dim sample_args = 2 \<and> prune_z_of sample_args \<and>
   map length (points sample_mesh) = [3, 3, 3] \<and>
   create_mesh sample_mesh ''line'' True =
     Inr \<lparr>out_points = [[0, 0], [1, 0], [0, 1]], out_cells = [(''line'', [[0, 1], [1, 2]])],
          out_cell_data = [(''name_to_read'', [[2, 3]])]\<rparr> \<and>
   list_all (\<lambda>p. length p = 2) [[0, 0], [1, 0], [0, 1 :: real]] \<and>
   create_mesh sample_mesh ''line'' False =
     Inr \<lparr>out_points = [[0, 0, 0], [1, 0, 0], [0, 1, 0]],
          out_cells = [(''line'', [[0, 1], [1, 2]])],
          out_cell_data = [(''name_to_read'', [[2, 3]])]\<rparr> \<and>
   main sample_raw sample_world = (Inr (), snd (main sample_raw sample_world)) \<and>
   disk sample_world (mesh_full_path sample_args) = Some sample_mesh \<and>
   (\<exists>lm tm.
      create_mesh sample_mesh ''line'' (prune_z_of sample_args) = Inr lm \<and>
      create_mesh sample_mesh ''triangle'' (prune_z_of sample_args) = Inr tm \<and>
      files_of_run sample_world (snd (main sample_raw sample_world)) =
        [(''out.xdmf'', tm), (''out_facet.xdmf'', lm)] \<and>
      list_all (\<lambda>p. length p = 2) (out_points tm) \<and>
      list_all (\<lambda>p. length p = 2) (out_points lm))"
proof -
  have run: "main sample_raw sample_world = (Inr (), snd (main sample_raw sample_world))"
    using sample_run_result(1) by (simp add: prod_eq_iff)
  have kept: "create_mesh sample_mesh ''line'' False =
     Inr \<lparr>out_points = [[0, 0, 0], [1, 0, 0], [0, 1, 0]],
          out_cells = [(''line'', [[0, 1], [1, 2]])],
          out_cell_data = [(''name_to_read'', [[2, 3]])]\<rparr>"
    by (simp add: create_mesh_def get_cells_type_def get_cell_data_def sample_mesh_def)
  have pts: "\<forall>p \<in> set (points sample_mesh). 2 \<le> length p"
    and lens: "map length (points sample_mesh) = [3, 3, 3]"
    by (simp_all add: sample_mesh_def)
  have disk: "disk sample_world (mesh_full_path sample_args) = Some sample_mesh"
    by (simp add: sample_world_def sample_args_def)
  have dim: "mesh_dim sample_args = 2" and dg: "spec_kind_table (deg sample_args) = Some (''line'', ''triangle'')"
    and paths: "output_full_path sample_args = ''out.xdmf''"
    by (simp_all add: sample_args_def spec_kind_table_def)
  note policy = pruning_policy [of sample_raw sample_args sample_mesh "''line''"
      "\<lparr>out_points = [[0, 0], [1, 0], [0, 1]], out_cells = [(''line'', [[0, 1], [1, 2]])],
        out_cell_data = [(''name_to_read'', [[2, 3]])]\<rparr>"
      "\<lparr>out_points = [[0, 0, 0], [1, 0, 0], [0, 1, 0]],
        out_cells = [(''line'', [[0, 1], [1, 2]])],
        out_cell_data = [(''name_to_read'', [[2, 3]])]\<rparr>"
      sample_world "snd (main sample_raw sample_world)"]
  from policy sample_parse run obtain msh bk vk lm tm where
    d: "disk sample_world (mesh_full_path sample_args) = Some msh" and
    k: "spec_kind_table (deg sample_args) = Some (bk, vk)" and
    l: "create_mesh msh bk (prune_z_of sample_args) = Inr lm" and
    t: "create_mesh msh vk (prune_z_of sample_args) = Inr tm" and
    f: "files_of_run sample_world (snd (main sample_raw sample_world)) =
          [(output_full_path sample_args, tm),
           (facet_path (output_full_path sample_args), lm)]" and
    two: "mesh_dim sample_args = 2 \<and> (\<forall>p \<in> set (points msh). 2 \<le> length p) \<longrightarrow>
            (\<forall>p \<in> set (out_points tm). length p = 2) \<and>
            (\<forall>p \<in> set (out_points lm). length p = 2)"
    by blast
  have m: "msh = sample_mesh" and b: "bk = ''line''" and v: "vk = ''triangle''"
    using d disk k dg by simp_all
  have files: "\<exists>lm tm.
      create_mesh sample_mesh ''line'' (prune_z_of sample_args) = Inr lm \<and>
      create_mesh sample_mesh ''triangle'' (prune_z_of sample_args) = Inr tm \<and>
      files_of_run sample_world (snd (main sample_raw sample_world)) =
        [(''out.xdmf'', tm), (''out_facet.xdmf'', lm)] \<and>
      list_all (\<lambda>p. length p = 2) (out_points tm) \<and>
      list_all (\<lambda>p. length p = 2) (out_points lm)"
    using l t f two dim pts unfolding m b v paths sample_paths(3)
    by (auto simp: list_all_iff)
  have flag: "prune_z_of sample_args"
    using policy sample_parse dim by simp
  have "list_all (\<lambda>p. length p = 2) [[0, 0], [1, 0], [0, 1 :: real]]"
    using policy pts sample_line by (simp add: list_all_iff)
  then show ?thesis
    using sample_parse dim flag lens sample_line kept run disk files by simp
qed

section \<open>Order of the steps and failures\<close>

lemma create_mesh_error:
  "create_mesh mesh kind prune_z = Inl e \<Longrightarrow> \<exists>key. e = LookupFailure key"
  by (auto simp: create_mesh_def get_cells_type_def get_cell_data_def Let_def
        split: sum.splits option.splits)

lemma messages_differ:
  "input_extension_message \<noteq> not_implemented_message"
  "output_extension_message \<noteq> not_implemented_message"
  "input_extension_message \<noteq> output_extension_message"
  by (simp_all add: input_extension_message_def output_extension_message_def
        not_implemented_message_def)

lemma not_implemented_reached:
  "deg a \<noteq> 1 \<Longrightarrow> deg a \<noteq> 2 \<Longrightarrow>
   extract_by_deg a msh p w = (Inl (Exception not_implemented_message), w)"
  by (simp add: extract_by_deg_def raise_io_def)

text \<open>
  C5. The claim puts the extraction of the volume mesh before that of the boundary
  mesh. Lines 49 and 52 build the boundary mesh first: the sample run calls
  \<open>create_mesh\<close> for \<open>line\<close> and then for \<open>triangle\<close>, and on a mesh with neither kind the
  run fails on \<open>line\<close>.
\<close>

theorem volume_extracted_second:
  "fst (main sample_raw sample_world) = Inr () \<and>
   events_of_run sample_world (snd (main sample_raw sample_world)) =
     [Read ''mesh.msh'', CreateMesh ''line'' True, CreateMesh ''triangle'' True,
      Write ''out.xdmf'', Write ''out_facet.xdmf'', Print done_message] \<and>
   events_of_run sample_world (snd (main sample_raw sample_world)) \<noteq>
     [Read ''mesh.msh'', CreateMesh ''triangle'' True, CreateMesh ''line'' True,
      Write ''out.xdmf'', Write ''out_facet.xdmf'', Print done_message] \<and>
   fst (main sample_raw sample_world_no_cells) = Inl (LookupFailure ''line'')"
proof -
  have "main sample_raw sample_world_no_cells = main_body sample_args sample_world_no_cells"
    by (simp add: main_parsed sample_parse)
  also have "fst \<dots> = Inl (LookupFailure ''line'')"
    by (simp add: main_body_unfold Let_def sample_args_def sample_paths prune_z_of_def
          spec_kind_table_def sample_world_no_cells_def sample_world_def create_mesh_def
          get_cells_type_def)
  finally show ?thesis
    by (simp add: sample_run_result sample_run_events)
qed

text \<open>
  C5, amended. A run that succeeds has parsed its arguments and found both extensions
  right, and its calls are, in this order: the read of the input path, \<open>create_mesh\<close>
  for the boundary kind, \<open>create_mesh\<close> for the volume kind, the write of the volume
  mesh to the output path, the write of the boundary mesh to the path derived from it,
  and the print of the completion notice.
\<close>

theorem run_order:
  "main raw w = (Inr (), w') \<Longrightarrow>
   \<exists>a bk vk msh lm tm.
     parse_args raw = Inr a \<and>
     endswith (mesh_full_path a) ''.msh'' \<and> endswith (output_full_path a) ''.xdmf'' \<and>
     spec_kind_table (deg a) = Some (bk, vk) \<and>
     disk w (mesh_full_path a) = Some msh \<and>
     create_mesh msh bk (prune_z_of a) = Inr lm \<and>
     create_mesh msh vk (prune_z_of a) = Inr tm \<and>
     events_of_run w w' =
       [Read (mesh_full_path a), CreateMesh bk (prune_z_of a), CreateMesh vk (prune_z_of a),
        Write (output_full_path a), Write (facet_path (output_full_path a)),
        Print done_message] \<and>
     files_of_run w w' = [(output_full_path a, tm), (facet_path (output_full_path a), lm)] \<and>
     stdout w' = stdout w @ [done_message]"
proof -
  assume run: "main raw w = (Inr (), w')"
  then obtain a where parsed: "parse_args raw = Inr a"
    by (cases "parse_args raw") (auto simp: main_def raise_io_def)
  with run have body: "main_body a w = (Inr (), w')"
    by (simp add: main_parsed)
  then have "\<exists>bk vk msh lm tm.
     endswith (mesh_full_path a) ''.msh'' \<and> endswith (output_full_path a) ''.xdmf'' \<and>
     spec_kind_table (deg a) = Some (bk, vk) \<and>
     disk w (mesh_full_path a) = Some msh \<and>
     create_mesh msh bk (prune_z_of a) = Inr lm \<and>
     create_mesh msh vk (prune_z_of a) = Inr tm \<and>
     events_of_run w w' =
       [Read (mesh_full_path a), CreateMesh bk (prune_z_of a), CreateMesh vk (prune_z_of a),
        Write (output_full_path a), Write (facet_path (output_full_path a)),
        Print done_message] \<and>
     files_of_run w w' = [(output_full_path a, tm), (facet_path (output_full_path a), lm)] \<and>
     stdout w' = stdout w @ [done_message]"
    by (auto simp: main_body_unfold Let_def events_of_run_def files_of_run_def
          split: if_splits option.splits sum.splits)
  with parsed show ?thesis by blast
qed

theorem run_order_witness:
  "main sample_raw sample_world = (Inr (), snd (main sample_raw sample_world)) \<and>
   (\<exists>a bk vk.
      parse_args sample_raw = Inr a \<and> spec_kind_table (deg a) = Some (bk, vk) \<and>
      events_of_run sample_world (snd (main sample_raw sample_world)) =
        [Read (mesh_full_path a), CreateMesh bk (prune_z_of a), CreateMesh vk (prune_z_of a),
         Write (output_full_path a), Write (facet_path (output_full_path a)),
         Print done_message])"
proof -
  have run: "main sample_raw sample_world = (Inr (), snd (main sample_raw sample_world))"
    using sample_run_result(1) by (simp add: prod_eq_iff)
  from run_order [OF run] run show ?thesis by blast
qed

text \<open>
  C6. Whenever the input path does not end with \<open>.msh\<close> or the output path does not
  end with \<open>.xdmf\<close>, the run ends with the exception of the extension check (that of
  the input path when both are wrong) and the world is as before: nothing was read,
  nothing written.
\<close>

theorem extension_checked_before_read:
  "parse_args raw = Inr a \<Longrightarrow>
   \<not> endswith (mesh_full_path a) ''.msh'' \<or> \<not> endswith (output_full_path a) ''.xdmf'' \<Longrightarrow>
   fst (main raw w) =
     Inl (Exception (if \<not> endswith (mesh_full_path a) ''.msh'' then input_extension_message
                     else output_extension_message)) \<and>
   snd (main raw w) = w \<and>
   events_of_run w (snd (main raw w)) = [] \<and>
   (\<forall>path. Read path \<notin> set (events_of_run w (snd (main raw w))))"
  by (auto simp: main_parsed main_body_unfold Let_def events_of_run_def)

theorem extension_checked_before_read_witness:
  "parse_args sample_raw_wrong_input = Inr (sample_args\<lparr>mesh_full_path := ''mesh.xyz''\<rparr>) \<and>
   \<not> endswith ''mesh.xyz'' ''.msh'' \<and>
   main sample_raw_wrong_input sample_world = (Inl (Exception input_extension_message), sample_world) \<and>
   parse_args sample_raw_wrong_output = Inr (sample_args\<lparr>output_full_path := ''out.vtk''\<rparr>) \<and>
   \<not> endswith ''out.vtk'' ''.xdmf'' \<and>
   main sample_raw_wrong_output sample_world = (Inl (Exception output_extension_message), sample_world)"
proof -
  have p1: "parse_args sample_raw_wrong_input = Inr (sample_args\<lparr>mesh_full_path := ''mesh.xyz''\<rparr>)"
    by (simp add: parse_args_def sample_raw_wrong_input_def sample_raw_def sample_args_def)
  have p2: "parse_args sample_raw_wrong_output = Inr (sample_args\<lparr>output_full_path := ''out.vtk''\<rparr>)"
    by (simp add: parse_args_def sample_raw_wrong_output_def sample_raw_def sample_args_def)
  have e1: "\<not> endswith ''mesh.xyz'' ''.msh''" and e2: "\<not> endswith ''out.vtk'' ''.xdmf''"
    by (simp_all add: endswith_def suffix_to_prefix)
  have h1: "\<not> endswith (mesh_full_path (sample_args\<lparr>mesh_full_path := ''mesh.xyz''\<rparr>)) ''.msh'' \<or>
            \<not> endswith (output_full_path (sample_args\<lparr>mesh_full_path := ''mesh.xyz''\<rparr>)) ''.xdmf''"
    using e1 by simp
  have h2: "\<not> endswith (mesh_full_path (sample_args\<lparr>output_full_path := ''out.vtk''\<rparr>)) ''.msh'' \<or>
            \<not> endswith (output_full_path (sample_args\<lparr>output_full_path := ''out.vtk''\<rparr>)) ''.xdmf''"
    using e2 by simp
  have in_ok: "endswith (mesh_full_path (sample_args\<lparr>output_full_path := ''out.vtk''\<rparr>)) ''.msh''"
    by (simp add: sample_args_def sample_paths)
  show ?thesis
    using extension_checked_before_read [OF p1 h1, of sample_world]
          extension_checked_before_read [OF p2 h2, of sample_world] p1 p2 e1 e2 in_ok
    by (simp add: prod_eq_iff)
qed

text \<open>
  C9. For arguments that passed the parser the degree is 1 or 2, and then neither the
  selection of lines 48 to 55 nor the run as a whole ends with the exception of line 55.
\<close>

theorem not_implemented_unreachable:
  "parse_args raw = Inr a \<Longrightarrow>
   deg a \<in> {1, 2} \<and>
   fst (extract_by_deg a msh p w) \<noteq> Inl (Exception not_implemented_message) \<and>
   fst (main raw w) \<noteq> Inl (Exception not_implemented_message)"
proof -
  assume parsed: "parse_args raw = Inr a"
  have dg: "deg a \<in> {1, 2}"
    using parse_args_choices [OF parsed] by simp
  from dg have table: "spec_kind_table (deg a) \<noteq> None"
    by (auto simp: spec_kind_table_def)
  have sel: "fst (extract_by_deg a msh p w) \<noteq> Inl (Exception not_implemented_message)"
    using table
    by (auto simp: extract_by_deg_unfold split: option.splits sum.splits dest: create_mesh_error)
  have "fst (main_body a w) \<noteq> Inl (Exception not_implemented_message)"
    using table messages_differ
    by (auto simp: main_body_unfold Let_def split: option.splits sum.splits
          dest: create_mesh_error)
  with parsed dg sel show ?thesis
    by (simp add: main_parsed)
qed

theorem not_implemented_unreachable_witness:
  "parse_args sample_raw = Inr sample_args \<and> deg sample_args \<in> {1, 2} \<and>
   fst (extract_by_deg sample_args sample_mesh True sample_world) \<noteq>
     Inl (Exception not_implemented_message) \<and>
   fst (main sample_raw sample_world) \<noteq> Inl (Exception not_implemented_message)"
  using not_implemented_unreachable [OF sample_parse, of sample_mesh True sample_world]
        sample_parse
  by simp


section \<open>The extraction on the store\<close>

lemma deref_append: "a < length h \<Longrightarrow> deref (h @ xs) a = deref h a"
  by (simp add: deref_def nth_append)

lemma deref_Some_less: "deref h a = Some ob \<Longrightarrow> a < length h"
  by (simp add: deref_def split: if_splits)

lemma source_at_append: "source_at h a = Some m \<Longrightarrow> source_at (h @ xs) a = Some m"
proof -
  assume src: "source_at h a = Some m"
  then obtain pref blocks cdata where ob: "deref h a = Some (SourceObj pref blocks cdata)"
    by (auto simp: source_at_def split: option.splits obj.splits)
  with src obtain pts where arr: "deref h pref = Some (NdArray pts)"
    by (auto simp: source_at_def split: option.splits obj.splits)
  have "deref (h @ xs) a = deref h a" "deref (h @ xs) pref = deref h pref"
    using ob arr by (simp_all add: deref_append deref_Some_less)
  then show ?thesis
    using src ob arr by (simp add: source_at_def)
qed

lemma create_mesh_in_store_extends:
  "create_mesh_in_store h mesh kind prune_z = (r, h') \<Longrightarrow> \<exists>xs. h' = h @ xs"
  by (auto simp: create_mesh_in_store_def alloc_def Let_def
        split: option.splits sum.splits if_splits)

text \<open>
  The store version computes what \<open>create_mesh\<close> computes on the mesh the address
  denotes.
\<close>

lemma create_mesh_in_store_result:
  "source_at h mesh = Some m \<Longrightarrow>
   (case create_mesh_in_store h mesh kind prune_z of
      (Inl e, h') \<Rightarrow> create_mesh m kind prune_z = Inl e
    | (Inr b, h') \<Rightarrow> (\<exists>out. output_at h' b = Some out \<and> create_mesh m kind prune_z = Inr out))"
proof -
  assume src: "source_at h mesh = Some m"
  then obtain pref where ob: "deref h mesh = Some (SourceObj pref (cell_blocks m) (cell_data m))"
    and arr: "deref h pref = Some (NdArray (points m))"
    by (auto simp: source_at_def split: option.splits obj.splits)
  have pr: "points_ref h mesh = pref"
    using ob by (simp add: points_ref_def)
  have less: "pref < length h"
    using arr by (rule deref_Some_less)
  show ?thesis
    using src pr less arr
    by (auto simp: create_mesh_in_store_def create_mesh_def alloc_def Let_def output_at_def
          deref_def nth_append split: sum.splits)
qed

text \<open>
  C8. A call of \<open>create_mesh\<close> only allocates: the store after the call is the store
  before it followed by the new objects, so every object that existed, the source mesh
  and its coordinate array among them, is the same afterwards, and the address of the
  source mesh denotes the same points, cell blocks and cell data as before.
\<close>

theorem create_mesh_leaves_source:
  "create_mesh_in_store h mesh kind prune_z = (r, h') \<Longrightarrow>
   take (length h) h' = h \<and>
   (\<forall>b. b < length h \<longrightarrow> deref h' b = deref h b) \<and>
   (\<forall>b m. source_at h b = Some m \<longrightarrow> source_at h' b = Some m) \<and>
   source_at h' mesh = source_at h mesh"
proof -
  assume call: "create_mesh_in_store h mesh kind prune_z = (r, h')"
  then obtain xs where ext: "h' = h @ xs"
    using create_mesh_in_store_extends by blast
  have same: "source_at h' mesh = source_at h mesh"
  proof (cases "source_at h mesh")
    case None
    with call have "h' = h"
      by (simp add: create_mesh_in_store_def)
    then show ?thesis by simp
  next
    case (Some m)
    then show ?thesis
      using ext by (simp add: source_at_append)
  qed
  show ?thesis
    using ext same by (simp add: deref_append source_at_append)
qed

theorem create_mesh_leaves_source_witness:
  "create_mesh_in_store sample_store 1 ''line'' True =
     (Inr 3,
      sample_store @
        [NdArray [[0, 0], [1, 0], [0, 1]],
         OutputObj 2 [(''line'', [[0, 1], [1, 2]])] [(''name_to_read'', [[2, 3]])]]) \<and>
   source_at sample_store 1 = Some sample_mesh \<and>
   source_at (sample_store @
        [NdArray [[0, 0], [1, 0], [0, 1]],
         OutputObj 2 [(''line'', [[0, 1], [1, 2]])] [(''name_to_read'', [[2, 3]])]]) 1 =
     Some sample_mesh"
proof -
  have src: "source_at sample_store 1 = Some sample_mesh"
    by (simp add: source_at_def deref_def sample_store_def sample_mesh_def)
  have call: "create_mesh_in_store sample_store 1 ''line'' True =
     (Inr 3,
      sample_store @
        [NdArray [[0, 0], [1, 0], [0, 1]],
         OutputObj 2 [(''line'', [[0, 1], [1, 2]])] [(''name_to_read'', [[2, 3]])]])"
    unfolding create_mesh_in_store_def src
    by (simp add: get_cells_type_def get_cell_data_def first_two_columns_def alloc_def
          sample_mesh_def sample_store_def)
  show ?thesis
    using create_mesh_leaves_source [OF call] call src by simp
qed


end
